theory Spec2Isabelle
  imports Complex_Main "HOL-Library.Multiset" "HOL-Library.Sublist"
begin

section \<open>Values, rows and the engine's built-ins\<close>

text \<open>
  The two components are TypeScript/React function components. Their hooks state
  (\<^verbatim>\<open>useState\<close>) is a record that every handler takes and returns; the calls a
  handler makes to the caller's callbacks are the list of notifications it returns,
  in call order. A callback prop is optional in the source (\<^verbatim>\<open>onSort?.(...)\<close>), so
  the props record says for each callback whether the caller supplied it.

  A row is \<^verbatim>\<open>Record<string, any>\<close>. The cell values modelled are the primitives
  \<^verbatim>\<open>undefined\<close>, \<^verbatim>\<open>null\<close>, numbers, strings and booleans. A number is \<^verbatim>\<open>NaN\<close> or
  is modelled by its exact value: every finite double is a rational, and the sign of
  the double \<^verbatim>\<open>a - b\<close>, which is all a sort reads of a comparator's result, is the sign
  of the exact difference. An infinity has no constructor of its own: under the
  comparator below it behaves as a rational beyond every other number of its column
  (the difference of two equal infinities is \<^verbatim>\<open>NaN\<close>, which a sort reads as zero, the
  sign of the difference of two equal rationals).
\<close>

datatype jsval = Undefined | Null | Num rat | NaN | Str string | Bool bool

type_synonym row = "(string \<times> jsval) list"

text \<open>\<^verbatim>\<open>row[name]\<close>: reading a property the object does not have gives \<^verbatim>\<open>undefined\<close>.\<close>

definition field :: "row \<Rightarrow> string \<Rightarrow> jsval" where
  "field r name = (case map_of r name of None \<Rightarrow> Undefined | Some v \<Rightarrow> v)"

text \<open>\<^verbatim>\<open>v == null\<close> (loose equality) holds of \<^verbatim>\<open>null\<close> and \<^verbatim>\<open>undefined\<close> only.\<close>

fun nullish :: "jsval \<Rightarrow> bool" where
  "nullish Undefined = True"
| "nullish Null = True"
| "nullish _ = False"

text \<open>\<^verbatim>\<open>typeof v === 'number'\<close>.\<close>

fun is_number :: "jsval \<Rightarrow> bool" where
  "is_number (Num _) = True"
| "is_number NaN = True"
| "is_number _ = False"

text \<open>
  A number as an arithmetic result: \<^verbatim>\<open>a - b\<close> on two numbers is \<^verbatim>\<open>NaN\<close> as soon as one of
  them is.
\<close>

datatype number = Value rat | NotANumber

fun subtract :: "jsval \<Rightarrow> jsval \<Rightarrow> number" where
  "subtract (Num x) (Num y) = Value (x - y)"
| "subtract _ _ = NotANumber"

text \<open>\<^verbatim>\<open>a === b\<close> on the values modelled: the same value, and not \<^verbatim>\<open>NaN\<close>.\<close>

definition strict_eq :: "jsval \<Rightarrow> jsval \<Rightarrow> bool" where
  "strict_eq a b = (a = b \<and> a \<noteq> NaN)"

text \<open>
  The source calls two built-ins of the JavaScript engine whose results depend on the
  engine and its locale data: \<^verbatim>\<open>String.prototype.localeCompare\<close> and the conversion of
  a number to a string inside \<^verbatim>\<open>String(v)\<close>. They are parameters of the model.
\<close>

record engine =
  localeCompare :: "string \<Rightarrow> string \<Rightarrow> rat"
  numberToString :: "rat \<Rightarrow> string"

text \<open>\<^verbatim>\<open>String(v)\<close>.\<close>

fun String_js :: "engine \<Rightarrow> jsval \<Rightarrow> string" where
  "String_js eng Undefined = ''undefined''"
| "String_js eng Null = ''null''"
| "String_js eng (Num n) = numberToString eng n"
| "String_js eng NaN = ''NaN''"
| "String_js eng (Str s) = s"
| "String_js eng (Bool b) = (if b then ''true'' else ''false'')"

text \<open>
  \<^verbatim>\<open>Array.prototype.sort(compareFn)\<close> is a built-in too. It reads the comparator through
  ECMAScript's SortCompare, which takes a \<^verbatim>\<open>NaN\<close> result for zero. ECMAScript requires
  the sort to be stable and leaves the order implementation-defined when the
  comparator is not consistent. The stand-in for it is a stable insertion sort that
  reads only the sign of SortCompare's result: each element is placed in front of the
  first element to its right that it does not compare greater than. On a consistent
  comparator the stable sort of a list is unique (\<open>stable_sort_of_unique\<close> below), so
  there the stand-in returns what every conforming engine returns; on another
  comparator it is one of the orders an engine may return, and no property of the
  displayed order is stated there.
\<close>

fun sortCompare :: "number \<Rightarrow> rat" where
  "sortCompare (Value v) = v"
| "sortCompare NotANumber = 0"

fun insert_sorted :: "('a \<Rightarrow> 'a \<Rightarrow> rat) \<Rightarrow> 'a \<Rightarrow> 'a list \<Rightarrow> 'a list" where
  "insert_sorted cmp x [] = [x]"
| "insert_sorted cmp x (y # ys) =
     (if cmp x y \<le> 0 then x # y # ys else y # insert_sorted cmp x ys)"

fun array_sort :: "('a \<Rightarrow> 'a \<Rightarrow> rat) \<Rightarrow> 'a list \<Rightarrow> 'a list" where
  "array_sort cmp [] = []"
| "array_sort cmp (x # xs) = insert_sorted cmp x (array_sort cmp xs)"

text \<open>
  \<^verbatim>\<open>keys.includes(k)\<close> compares with SameValueZero, which on the values modelled is
  equality: unlike \<^verbatim>\<open>===\<close>, it finds \<^verbatim>\<open>NaN\<close>.
\<close>

definition includes_js :: "jsval list \<Rightarrow> jsval \<Rightarrow> bool" where
  "includes_js keys k = (k \<in> set keys)"

section \<open>DataTable\<close>

datatype direction = Asc | Desc

datatype SelectMode = Single | Multiple

record sort_config =
  key :: string
  direction :: direction

text \<open>
  \<^verbatim>\<open>Column<T>\<close>. \<^verbatim>\<open>sortable\<close> is optional; \<^verbatim>\<open>render\<close> and \<^verbatim>\<open>width\<close> only affect how a
  cell is drawn and are left out.
\<close>

record column =
  col_key :: string
  title :: string
  dataIndex :: string
  sortable :: "bool option"

text \<open>
  \<^verbatim>\<open>DataTableProps<T>\<close> after the defaults of the parameter list are applied
  (\<^verbatim>\<open>loading = false\<close>, \<^verbatim>\<open>selectable = false\<close>, \<^verbatim>\<open>selectMode = 'multiple'\<close>,
  \<^verbatim>\<open>rowKey = 'id'\<close>). \<^verbatim>\<open>selectedRowKeys\<close> stays optional: the component is controlled
  exactly when it is supplied. \<^verbatim>\<open>onRowSelect\<close> and \<^verbatim>\<open>onSort\<close> say whether the caller
  passed the callback.
\<close>

record props =
  data :: "row list"
  columns :: "column list"
  loading :: bool
  selectable :: bool
  selectMode :: SelectMode
  selectedRowKeys :: "jsval list option"
  rowKey :: string
  onRowSelect :: bool
  onSort :: bool

record state =
  sortConfig :: "sort_config option"
  internalSelectedKeys :: "jsval list"

text \<open>The two \<^verbatim>\<open>useState\<close> initial values.\<close>

definition initial_state :: state where
  "initial_state = \<lparr>sortConfig = None, internalSelectedKeys = []\<rparr>"

datatype notification =
  OnSort string "direction option"
| OnRowSelect "row list"

text \<open>\<^verbatim>\<open>const selectedKeys = selectedRowKeys ?? internalSelectedKeys\<close>.\<close>

definition selectedKeys :: "props \<Rightarrow> state \<Rightarrow> jsval list" where
  "selectedKeys p st =
     (case selectedRowKeys p of Some ks \<Rightarrow> ks | None \<Rightarrow> internalSelectedKeys st)"

subsection \<open>Sorting\<close>

text \<open>The comparator passed to \<^verbatim>\<open>sort\<close>, on the two cell values.\<close>

definition compareValues :: "engine \<Rightarrow> direction \<Rightarrow> jsval \<Rightarrow> jsval \<Rightarrow> number" where
  "compareValues eng d aVal bVal =
     (if nullish aVal \<and> nullish bVal then Value 0
      else if nullish aVal then (if d = Asc then Value (- 1) else Value 1)
      else if nullish bVal then (if d = Asc then Value 1 else Value (- 1))
      else if is_number aVal \<and> is_number bVal
      then (if d = Asc then subtract aVal bVal else subtract bVal aVal)
      else (if d = Asc
            then Value (localeCompare eng (String_js eng aVal) (String_js eng bVal))
            else Value (localeCompare eng (String_js eng bVal) (String_js eng aVal))))"

definition compareRows :: "engine \<Rightarrow> sort_config \<Rightarrow> row \<Rightarrow> row \<Rightarrow> number" where
  "compareRows eng cfg a b =
     compareValues eng (direction cfg) (field a (key cfg)) (field b (key cfg))"

text \<open>The comparator as the sort reads it.\<close>

definition rowOrder :: "engine \<Rightarrow> sort_config \<Rightarrow> row \<Rightarrow> row \<Rightarrow> rat" where
  "rowOrder eng cfg a b = sortCompare (compareRows eng cfg a b)"

definition sortedData :: "engine \<Rightarrow> props \<Rightarrow> state \<Rightarrow> row list" where
  "sortedData eng p st =
     (case sortConfig st of
        None \<Rightarrow> data p
      | Some cfg \<Rightarrow> array_sort (rowOrder eng cfg) (data p))"

definition toggleSort :: "props \<Rightarrow> state \<Rightarrow> string \<Rightarrow> bool option \<Rightarrow> state \<times> notification list" where
  "toggleSort p st k srt =
     (if srt \<noteq> Some True then (st, [])
      else
        let next =
              (case sortConfig st of
                 None \<Rightarrow> Some \<lparr>key = k, direction = Asc\<rparr>
               | Some cur \<Rightarrow>
                   if key cur = k
                   then (if direction cur = Asc then Some \<lparr>key = k, direction = Desc\<rparr> else None)
                   else Some \<lparr>key = k, direction = Asc\<rparr>)
        in (st\<lparr>sortConfig := next\<rparr>,
            if onSort p
            then [OnSort (case next of Some n \<Rightarrow> key n | None \<Rightarrow> k) (map_option direction next)]
            else []))"

text \<open>The click handler of a column header's button.\<close>

definition headerClick :: "props \<Rightarrow> state \<Rightarrow> column \<Rightarrow> state \<times> notification list" where
  "headerClick p st col = toggleSort p st (col_key col) (sortable col)"

subsection \<open>Selection\<close>

definition rowKeyOf :: "props \<Rightarrow> row \<Rightarrow> jsval" where
  "rowKeyOf p r = field r (rowKey p)"

definition updateSelection :: "props \<Rightarrow> state \<Rightarrow> jsval list \<Rightarrow> state \<times> notification list" where
  "updateSelection p st keys =
     (let st' = (if selectedRowKeys p = None then st\<lparr>internalSelectedKeys := keys\<rparr> else st);
          rows = filter (\<lambda>r. includes_js keys (rowKeyOf p r)) (data p)
      in (st', if onRowSelect p then [OnRowSelect rows] else []))"

definition handleSelectAll :: "props \<Rightarrow> state \<Rightarrow> bool \<Rightarrow> state \<times> notification list" where
  "handleSelectAll p st checked =
     (if \<not> selectable p then (st, [])
      else if checked then updateSelection p st (map (rowKeyOf p) (data p))
      else updateSelection p st [])"

definition toggleRow :: "props \<Rightarrow> state \<Rightarrow> row \<Rightarrow> state \<times> notification list" where
  "toggleRow p st r =
     (if \<not> selectable p then (st, [])
      else
        let k = rowKeyOf p r; isSelected = includes_js (selectedKeys p st) k
        in if selectMode p = Single
           then updateSelection p st (if isSelected then [] else [k])
           else updateSelection p st
                  (if isSelected then filter (\<lambda>k'. \<not> strict_eq k' k) (selectedKeys p st)
                   else selectedKeys p st @ [k]))"

subsection \<open>Rendering\<close>

definition allSelected :: "props \<Rightarrow> state \<Rightarrow> bool" where
  "allSelected p st =
     (length (data p) > 0 \<and> length (selectedKeys p st) = length (data p))"

datatype aria_sort = AriaNone | AriaAscending | AriaDescending

text \<open>
  What the populated table shows, without class names and cell contents: the header
  checkbox (absent unless \<^verbatim>\<open>selectable\<close>) with its checked state, the \<^verbatim>\<open>aria-sort\<close>
  value of each column header, and the body rows in display order, each with its
  selected flag.
\<close>

record table_view =
  selectAllChecked :: "bool option"
  headerSort :: "(string \<times> aria_sort) list"
  body :: "(row \<times> bool) list"

datatype view = LoadingPlaceholder | EmptyPlaceholder | Populated table_view

definition ariaSort :: "state \<Rightarrow> column \<Rightarrow> aria_sort" where
  "ariaSort st col =
     (case sortConfig st of
        None \<Rightarrow> AriaNone
      | Some cur \<Rightarrow>
          if key cur = col_key col
          then (if direction cur = Asc then AriaAscending else AriaDescending)
          else AriaNone)"

definition DataTable :: "engine \<Rightarrow> props \<Rightarrow> state \<Rightarrow> view" where
  "DataTable eng p st =
     (if loading p then LoadingPlaceholder
      else if length (data p) = 0 then EmptyPlaceholder
      else Populated
        \<lparr>selectAllChecked = (if selectable p then Some (allSelected p st) else None),
         headerSort = map (\<lambda>col. (title col, ariaSort st col)) (columns p),
         body = map (\<lambda>r. (r, includes_js (selectedKeys p st) (rowKeyOf p r)))
                    (sortedData eng p st)\<rparr>)"

text \<open>The rows a view shows, top to bottom; a placeholder shows none.\<close>

fun displayedRows :: "view \<Rightarrow> row list" where
  "displayedRows (Populated tv) = map fst (body tv)"
| "displayedRows _ = []"

text \<open>
  One interaction with the table: a click on a column header's button, a click on a row
  or on its checkbox (both call \<^verbatim>\<open>toggleRow\<close>), or a change of the header checkbox.
\<close>

datatype table_event =
  HeaderClick column
| RowClick row
| RowCheckbox row
| SelectAll bool

fun handle :: "props \<Rightarrow> state \<Rightarrow> table_event \<Rightarrow> state \<times> notification list" where
  "handle p st (HeaderClick col) = headerClick p st col"
| "handle p st (RowClick r) = toggleRow p st r"
| "handle p st (RowCheckbox r) = toggleRow p st r"
| "handle p st (SelectAll checked) = handleSelectAll p st checked"

text \<open>
  A sequence of interactions under unchanged props: the state after the last one and
  every notification fired, in order.
\<close>

fun interact :: "props \<Rightarrow> state \<Rightarrow> table_event list \<Rightarrow> state \<times> notification list" where
  "interact p st [] = (st, [])"
| "interact p st (ev # evs) =
     (let (st1, ns1) = handle p st ev; (st2, ns2) = interact p st1 evs
      in (st2, ns1 @ ns2))"

section \<open>InputField\<close>

text \<open>
  \<^verbatim>\<open>InputFieldProps\<close> after the defaults are applied. The props that only choose class
  names or labels (\<^verbatim>\<open>label\<close>, \<^verbatim>\<open>placeholder\<close>, \<^verbatim>\<open>variant\<close>, \<^verbatim>\<open>size\<close>, \<^verbatim>\<open>maxLength\<close>,
  \<^verbatim>\<open>className\<close>) are left out. \<^verbatim>\<open>value\<close>, \<^verbatim>\<open>type\<close> and \<^verbatim>\<open>loading\<close> are renamed
  \<open>valueProp\<close>, \<open>inputType\<close> and \<open>busy\<close>.
\<close>

record input_props =
  valueProp :: "string option"
  defaultValue :: "string option"
  onChange :: bool
  onClear :: bool
  onEnter :: bool
  helperText :: "string option"
  errorMessage :: "string option"
  disabled :: bool
  invalid :: bool
  busy :: bool
  inputType :: string
  showClearButton :: bool
  showPasswordToggle :: bool

record input_state =
  internalValue :: string
  showPassword :: bool

datatype input_notification = OnChange string | OnClear | OnEnter

definition isControlled :: "input_props \<Rightarrow> bool" where
  "isControlled p = (valueProp p \<noteq> None)"

text \<open>\<^verbatim>\<open>a ?? b\<close> on an optional string.\<close>

definition orElse :: "string option \<Rightarrow> string \<Rightarrow> string" where
  "orElse a b = (case a of Some v \<Rightarrow> v | None \<Rightarrow> b)"

text \<open>The state of the first render: \<^verbatim>\<open>useState(defaultValue ?? (value ?? ''))\<close>.\<close>

definition initial_input :: "input_props \<Rightarrow> input_state" where
  "initial_input p =
     \<lparr>internalValue = orElse (defaultValue p) (orElse (valueProp p) ''''),
      showPassword = False\<rparr>"

text \<open>The \<^verbatim>\<open>useEffect\<close> on \<^verbatim>\<open>[value, isControlled]\<close>.\<close>

definition syncEffect :: "input_props \<Rightarrow> input_state \<Rightarrow> input_state" where
  "syncEffect p st =
     (if isControlled p then st\<lparr>internalValue := orElse (valueProp p) ''''\<rparr> else st)"

definition handleChange ::
  "input_props \<Rightarrow> input_state \<Rightarrow> string \<Rightarrow> input_state \<times> input_notification list" where
  "handleChange p st v =
     (if \<not> isControlled p then st\<lparr>internalValue := v\<rparr> else st,
      if onChange p then [OnChange v] else [])"

text \<open>The call that returns focus to the input acts on the DOM only and is left out.\<close>

definition handleClear ::
  "input_props \<Rightarrow> input_state \<Rightarrow> input_state \<times> input_notification list" where
  "handleClear p st =
     (if \<not> isControlled p then st\<lparr>internalValue := ''''\<rparr> else st,
      (if onChange p then [OnChange ''''] else []) @ (if onClear p then [OnClear] else []))"

definition handleKeyDown ::
  "input_props \<Rightarrow> input_state \<Rightarrow> string \<Rightarrow> input_state \<times> input_notification list" where
  "handleKeyDown p st k = (st, if k = ''Enter'' \<and> onEnter p then [OnEnter] else [])"

definition togglePassword :: "input_state \<Rightarrow> input_state" where
  "togglePassword st = st\<lparr>showPassword := \<not> showPassword st\<rparr>"

text \<open>A string prop in a condition: \<^verbatim>\<open>undefined\<close> and the empty string are falsy.\<close>

definition truthy :: "string option \<Rightarrow> bool" where
  "truthy s = (case s of None \<Rightarrow> False | Some v \<Rightarrow> v \<noteq> '''')"

text \<open>
  The paragraph under the input,
  \<^verbatim>\<open>(helperText || errorMessage) && <p>{invalid ? errorMessage : helperText}</p>\<close>:
  \<open>None\<close> when no paragraph is rendered, otherwise its child, where an \<^verbatim>\<open>undefined\<close>
  child (\<open>None\<close>) renders no text.
\<close>

definition hint :: "input_props \<Rightarrow> string option option" where
  "hint p =
     (if truthy (helperText p) \<or> truthy (errorMessage p)
      then Some (if invalid p then errorMessage p else helperText p)
      else None)"

text \<open>The text a user reads under the input, if any.\<close>

definition hintText :: "input_props \<Rightarrow> string option" where
  "hintText p = (case hint p of None \<Rightarrow> None | Some child \<Rightarrow> child)"

record input_view =
  inputValue :: string
  shownType :: string
  inputDisabled :: bool
  clearButton :: bool
  passwordToggle :: bool
  hintParagraph :: "string option option"

definition InputField :: "input_props \<Rightarrow> input_state \<Rightarrow> input_view" where
  "InputField p st =
     \<lparr>inputValue = internalValue st,
      shownType = (if showPasswordToggle p \<and> showPassword st then ''text'' else inputType p),
      inputDisabled = (disabled p \<or> busy p),
      clearButton = (showClearButton p \<and> internalValue st \<noteq> '''' \<and> \<not> busy p \<and> \<not> disabled p),
      passwordToggle = (showPasswordToggle p \<and> inputType p = ''password'' \<and> \<not> busy p),
      hintParagraph = hint p\<rparr>"

text \<open>
  The life of one field. It starts with the first render, on the \<^verbatim>\<open>useState\<close>
  initial values. Then the user types (each keystroke is a change event carrying the
  input's new text), clicks the clear button or the password toggle, or presses a
  key; the caller renders the field again with new props, which leaves the hooks state
  as it is; or the effects of the last render run. What the field shows at any moment
  is \<open>InputField\<close> of the current props and state.
\<close>

datatype input_event =
  Typed string
| ClickClear
| KeyDown string
| ClickPasswordToggle
| Rerender input_props
| Effects

fun dispatch :: "input_props \<times> input_state \<Rightarrow> input_event \<Rightarrow> input_props \<times> input_state" where
  "dispatch (p, st) (Typed v) = (p, fst (handleChange p st v))"
| "dispatch (p, st) ClickClear = (p, fst (handleClear p st))"
| "dispatch (p, st) (KeyDown k) = (p, fst (handleKeyDown p st k))"
| "dispatch (p, st) ClickPasswordToggle = (p, togglePassword st)"
| "dispatch (p, st) (Rerender p') = (p', st)"
| "dispatch (p, st) Effects = (p, syncEffect p st)"

definition lifetime :: "input_props \<Rightarrow> input_event list \<Rightarrow> input_props \<times> input_state" where
  "lifetime p evs = foldl dispatch (p, initial_input p) evs"

text \<open>The text in the input after a sequence of events.\<close>

definition shownValue :: "input_props \<Rightarrow> input_event list \<Rightarrow> string" where
  "shownValue p evs = inputValue (InputField (fst (lifetime p evs)) (snd (lifetime p evs)))"

section \<open>Notions used by the properties\<close>

text \<open>
  ECMAScript's consistent comparator, on the elements of a set: the sign of \<open>cmp a b\<close>
  is the opposite of the sign of \<open>cmp b a\<close>, and \<open>cmp a b \<le> 0\<close> is transitive.
\<close>

definition consistent_on :: "'a set \<Rightarrow> ('a \<Rightarrow> 'a \<Rightarrow> rat) \<Rightarrow> bool" where
  "consistent_on S cmp \<longleftrightarrow>
     (\<forall>a\<in>S. \<forall>b\<in>S. (cmp a b < 0 \<longleftrightarrow> cmp b a > 0)) \<and>
     (\<forall>a\<in>S. \<forall>b\<in>S. \<forall>c\<in>S. cmp a b \<le> 0 \<and> cmp b c \<le> 0 \<longrightarrow> cmp a c \<le> 0)"

text \<open>
  What it means for \<open>ys\<close> to be the stable sort of \<open>xs\<close> under a comparator: the same
  elements, no element before one it compares greater than, and the elements that
  compare equal to a given one in the order they have in \<open>xs\<close>.
\<close>

definition stable_sort_of :: "('a \<Rightarrow> 'a \<Rightarrow> rat) \<Rightarrow> 'a list \<Rightarrow> 'a list \<Rightarrow> bool" where
  "stable_sort_of cmp xs ys \<longleftrightarrow>
     mset ys = mset xs \<and>
     sorted_wrt (\<lambda>a b. cmp a b \<le> 0) ys \<and>
     (\<forall>w\<in>set xs. filter (\<lambda>v. cmp w v = 0) ys = filter (\<lambda>v. cmp w v = 0) xs)"

text \<open>
  The field type of a column: a numeric field holds numbers other than \<^verbatim>\<open>NaN\<close>,
  \<^verbatim>\<open>null\<close> or \<^verbatim>\<open>undefined\<close>; a field of another type holds no number.
\<close>

fun ordinary_number :: "jsval \<Rightarrow> bool" where
  "ordinary_number (Num _) = True"
| "ordinary_number _ = False"

definition numeric_column :: "string \<Rightarrow> row list \<Rightarrow> bool" where
  "numeric_column k rows \<longleftrightarrow>
     (\<forall>r\<in>set rows. nullish (field r k) \<or> ordinary_number (field r k))"

definition text_column :: "string \<Rightarrow> row list \<Rightarrow> bool" where
  "text_column k rows \<longleftrightarrow> (\<forall>r\<in>set rows. \<not> is_number (field r k))"

subsection \<open>Concrete inputs\<close>

text \<open>
  An engine whose \<^verbatim>\<open>localeCompare\<close> orders strings by their code units, and that
  prints a natural number in decimal (and nothing for another number); five rows; a
  column \<open>v\<close> that mixes numbers and a string, one that holds \<^verbatim>\<open>NaN\<close>, and a row whose
  identity key is \<^verbatim>\<open>NaN\<close>; a table over some rows, with both callbacks supplied and its
  selection uncontrolled; a sortable column; the props of a controlled input that is
  invalid and has helper text but no error message, and the same with a default value.
\<close>

fun codeUnitCompare :: "string \<Rightarrow> string \<Rightarrow> rat" where
  "codeUnitCompare [] [] = 0"
| "codeUnitCompare [] (d # ds) = - 1"
| "codeUnitCompare (c # cs) [] = 1"
| "codeUnitCompare (c # cs) (d # ds) =
     (if (of_char c :: nat) < of_char d then - 1
      else if (of_char d :: nat) < of_char c then 1
      else codeUnitCompare cs ds)"

fun decimal :: "nat \<Rightarrow> string" where
  "decimal n =
     (if n < 10 then [''0123456789'' ! n]
      else decimal (n div 10) @ [''0123456789'' ! (n mod 10)])"

definition example_engine :: engine where
  "example_engine =
     \<lparr>localeCompare = codeUnitCompare,
      numberToString = (\<lambda>q. if q = of_nat (nat \<lfloor>q\<rfloor>) then decimal (nat \<lfloor>q\<rfloor>) else [])\<rparr>"

definition row1 :: row where
  "row1 = [(''id'', Num 1), (''name'', Str ''Eve''), (''age'', Null)]"

definition row2 :: row where
  "row2 = [(''id'', Num 2), (''name'', Str ''Bob''), (''age'', Num 3)]"

definition row3 :: row where
  "row3 = [(''id'', Num 3), (''name'', Str ''Dan''), (''age'', Num 1)]"

definition row4 :: row where
  "row4 = [(''id'', Num 4), (''name'', Str ''Al''), (''age'', Null)]"

definition row5 :: row where
  "row5 = [(''id'', Num 5), (''name'', Str ''Bob''), (''age'', Num 2)]"

definition mixed1 :: row where
  "mixed1 = [(''id'', Num 1), (''v'', Num 2)]"

definition mixed2 :: row where
  "mixed2 = [(''id'', Num 2), (''v'', Str ''1a'')]"

definition mixed3 :: row where
  "mixed3 = [(''id'', Num 3), (''v'', Num 10)]"

definition nan2 :: row where
  "nan2 = [(''id'', Num 2), (''v'', NaN)]"

definition nan3 :: row where
  "nan3 = [(''id'', Num 3), (''v'', Num 1)]"


definition example_table :: "SelectMode \<Rightarrow> row list \<Rightarrow> props" where
  "example_table m rows =
     \<lparr>data = rows, columns = [], loading = False, selectable = True, selectMode = m,
      selectedRowKeys = None, rowKey = ''id'', onRowSelect = True, onSort = True\<rparr>"

definition sorted_by :: "string \<Rightarrow> direction \<Rightarrow> state" where
  "sorted_by k d =
     \<lparr>sortConfig = Some \<lparr>key = k, direction = d\<rparr>, internalSelectedKeys = []\<rparr>"


definition example_input :: input_props where
  "example_input =
     \<lparr>valueProp = Some ''x'', defaultValue = None, onChange = True, onClear = False,
      onEnter = False, helperText = Some ''hint'', errorMessage = None, disabled = False,
      invalid = True, busy = False, inputType = ''text'', showClearButton = True,
      showPasswordToggle = False\<rparr>"

definition example_input_with_default :: input_props where
  "example_input_with_default = example_input\<lparr>defaultValue := Some ''d''\<rparr>"

section \<open>The built-in sort\<close>

lemma set_insert_sorted: "set (insert_sorted cmp x xs) = insert x (set xs)"
  by (induction xs) auto

lemma mset_insert_sorted: "mset (insert_sorted cmp x xs) = add_mset x (mset xs)"
  by (induction xs) auto

lemma mset_array_sort: "mset (array_sort cmp xs) = mset xs"
  by (induction xs) (auto simp: mset_insert_sorted)

lemma set_array_sort: "set (array_sort cmp xs) = set xs"
  by (metis mset_array_sort set_mset_mset)

lemma consistent_flip:
  assumes "consistent_on S cmp" "a \<in> S" "b \<in> S" "\<not> cmp a b \<le> 0"
  shows "cmp b a \<le> 0"
  using assms unfolding consistent_on_def by (metis less_eq_rat_def not_le)

lemma consistent_trans:
  assumes "consistent_on S cmp" "a \<in> S" "b \<in> S" "c \<in> S" "cmp a b \<le> 0" "cmp b c \<le> 0"
  shows "cmp a c \<le> 0"
  using assms unfolding consistent_on_def by blast

lemma sorted_insert_sorted:
  assumes "consistent_on S cmp" "x \<in> S" "set xs \<subseteq> S"
    and "sorted_wrt (\<lambda>a b. cmp a b \<le> 0) xs"
  shows "sorted_wrt (\<lambda>a b. cmp a b \<le> 0) (insert_sorted cmp x xs)"
  using assms(3,4)
proof (induction xs)
  case Nil
  then show ?case by simp
next
  case (Cons y ys)
  show ?case
  proof (cases "cmp x y \<le> 0")
    case True
    have "cmp x z \<le> 0" if "z \<in> set ys" for z
    proof -
      have "cmp y z \<le> 0" using Cons.prems(2) that by simp
      then show ?thesis
        using consistent_trans [OF assms(1) assms(2) _ _ True] Cons.prems(1) that by auto
    qed
    then show ?thesis using True Cons.prems(2) by simp
  next
    case False
    then have yx: "cmp y x \<le> 0"
      using consistent_flip [OF assms(1) assms(2)] Cons.prems(1) by simp
    have "sorted_wrt (\<lambda>a b. cmp a b \<le> 0) (insert_sorted cmp x ys)"
      using Cons by simp
    then show ?thesis using False yx Cons.prems(2) by (auto simp: set_insert_sorted)
  qed
qed

lemma sorted_array_sort:
  assumes "consistent_on S cmp" "set xs \<subseteq> S"
  shows "sorted_wrt (\<lambda>a b. cmp a b \<le> 0) (array_sort cmp xs)"
  using assms(2)
proof (induction xs)
  case Nil
  then show ?case by simp
next
  case (Cons x xs)
  then show ?case
    using sorted_insert_sorted [OF assms(1), of x "array_sort cmp xs"]
    by (simp add: set_array_sort)
qed

lemma consistent_equiv:
  assumes "consistent_on S cmp" "z \<in> S" "x \<in> S" "y \<in> S" "cmp z x = 0" "cmp z y = 0"
  shows "cmp x y \<le> 0"
proof -
  have "cmp x z \<le> 0"
    using assms unfolding consistent_on_def by (metis less_irrefl not_le)
  then show ?thesis
    using consistent_trans [OF assms(1) assms(3) assms(2) assms(4)] assms(6) by simp
qed

lemma stable_insert_sorted:
  assumes "consistent_on S cmp" "x \<in> S" "set xs \<subseteq> S" "z \<in> S"
  shows "filter (\<lambda>y. cmp z y = 0) (insert_sorted cmp x xs) = filter (\<lambda>y. cmp z y = 0) (x # xs)"
  using assms(3)
proof (induction xs)
  case Nil
  then show ?case by simp
next
  case (Cons y ys)
  show ?case
  proof (cases "cmp x y \<le> 0")
    case True
    then show ?thesis by simp
  next
    case False
    have "\<not> (cmp z x = 0 \<and> cmp z y = 0)"
      using consistent_equiv [OF assms(1) assms(4) assms(2), of y] False Cons.prems by auto
    then show ?thesis using False Cons by auto
  qed
qed

lemma stable_array_sort:
  assumes "consistent_on S cmp" "set xs \<subseteq> S" "z \<in> S"
  shows "filter (\<lambda>y. cmp z y = 0) (array_sort cmp xs) = filter (\<lambda>y. cmp z y = 0) xs"
  using assms(2)
proof (induction xs)
  case Nil
  then show ?case by simp
next
  case (Cons x xs)
  then show ?case
    using stable_insert_sorted [OF assms(1) _ _ assms(3), of x "array_sort cmp xs"]
    by (simp add: set_array_sort)
qed

lemma array_sort_all_equal:
  assumes "\<forall>a\<in>set xs. \<forall>b\<in>set xs. cmp a b \<le> 0"
  shows "array_sort cmp xs = xs"
  using assms
proof (induction xs)
  case Nil
  then show ?case by simp
next
  case (Cons x xs)
  then have "array_sort cmp xs = xs" by simp
  then show ?case using Cons.prems by (cases xs) auto
qed

lemma consistent_refl:
  assumes "consistent_on S cmp" "z \<in> S"
  shows "cmp z z = 0"
  using assms unfolding consistent_on_def by (metis less_irrefl not_less_iff_gr_or_eq)

lemma consistent_sym0:
  assumes "consistent_on S cmp" "a \<in> S" "b \<in> S" "cmp a b \<le> 0" "cmp b a \<le> 0"
  shows "cmp a b = 0"
  using assms unfolding consistent_on_def by (metis less_eq_rat_def not_le)

lemma sorted_stable_unique:
  assumes c: "consistent_on S cmp"
  shows "set ys \<subseteq> S \<Longrightarrow> set zs \<subseteq> S
    \<Longrightarrow> sorted_wrt (\<lambda>a b. cmp a b \<le> 0) ys \<Longrightarrow> sorted_wrt (\<lambda>a b. cmp a b \<le> 0) zs
    \<Longrightarrow> (\<forall>w\<in>S. filter (\<lambda>v. cmp w v = 0) ys = filter (\<lambda>v. cmp w v = 0) zs)
    \<Longrightarrow> ys = zs"
proof (induction ys arbitrary: zs)
  case Nil
  show ?case
  proof (cases zs)
    case Nil
    then show ?thesis by simp
  next
    case (Cons z zs')
    then have "z \<in> S" using Nil.prems(2) by simp
    then have "filter (\<lambda>v. cmp z v = 0) zs = []" using Nil.prems(5) by auto
    then show ?thesis using Cons consistent_refl [OF c \<open>z \<in> S\<close>] by simp
  qed
next
  case (Cons y ys')
  have yS: "y \<in> S" using Cons.prems(1) by simp
  have yy: "cmp y y = 0" by (rule consistent_refl [OF c yS])
  have "filter (\<lambda>v. cmp y v = 0) (y # ys') = filter (\<lambda>v. cmp y v = 0) zs"
    using Cons.prems(5) yS by blast
  then have fy: "filter (\<lambda>v. cmp y v = 0) zs = y # filter (\<lambda>v. cmp y v = 0) ys'"
    using yy by simp
  then obtain z zs' where zs: "zs = z # zs'" by (cases zs) auto
  have zS: "z \<in> S" using Cons.prems(2) zs by simp
  have "y \<in> set (filter (\<lambda>v. cmp y v = 0) zs)" using fy by simp
  then have "y \<in> set zs" by simp
  then have zy: "cmp z y \<le> 0"
    using Cons.prems(4) zs consistent_refl [OF c zS] by auto
  have zz: "cmp z z = 0" by (rule consistent_refl [OF c zS])
  have "filter (\<lambda>v. cmp z v = 0) (y # ys') = filter (\<lambda>v. cmp z v = 0) zs"
    using Cons.prems(5) zS by blast
  then have "filter (\<lambda>v. cmp z v = 0) (y # ys') = z # filter (\<lambda>v. cmp z v = 0) zs'"
    using zz zs by simp
  then have "z \<in> set (filter (\<lambda>v. cmp z v = 0) (y # ys'))" by simp
  then have "z \<in> set (y # ys')" by (simp only: set_filter mem_Collect_eq)
  then have yz: "cmp y z \<le> 0"
    using Cons.prems(3) yy by auto
  have "cmp y z = 0" by (rule consistent_sym0 [OF c yS zS yz zy])
  then have "y = z" using fy zs by simp
  moreover have "ys' = zs'"
  proof (rule Cons.IH)
    show "set ys' \<subseteq> S" using Cons.prems(1) by simp
    show "set zs' \<subseteq> S" using Cons.prems(2) zs by simp
    show "sorted_wrt (\<lambda>a b. cmp a b \<le> 0) ys'" using Cons.prems(3) by simp
    show "sorted_wrt (\<lambda>a b. cmp a b \<le> 0) zs'" using Cons.prems(4) zs by simp
    show "\<forall>w\<in>S. filter (\<lambda>v. cmp w v = 0) ys' = filter (\<lambda>v. cmp w v = 0) zs'"
    proof
      fix w assume "w \<in> S"
      then have "filter (\<lambda>v. cmp w v = 0) (y # ys') = filter (\<lambda>v. cmp w v = 0) (z # zs')"
        using Cons.prems(5) zs by simp
      then show "filter (\<lambda>v. cmp w v = 0) ys' = filter (\<lambda>v. cmp w v = 0) zs'"
        using \<open>y = z\<close> by (simp split: if_splits)
    qed
  qed
  ultimately show ?case using zs by simp
qed

lemma array_sort_stable_sort_of:
  assumes "consistent_on (set xs) cmp"
  shows "stable_sort_of cmp xs (array_sort cmp xs)"
  unfolding stable_sort_of_def
  using mset_array_sort [of cmp xs] sorted_array_sort [OF assms] stable_array_sort [OF assms]
  by simp

lemma stable_sort_of_unique:
  assumes "consistent_on (set xs) cmp" "stable_sort_of cmp xs ys"
  shows "ys = array_sort cmp xs"
proof -
  have s: "set ys = set xs" using assms(2) unfolding stable_sort_of_def by (metis set_mset_mset)
  have a: "stable_sort_of cmp xs (array_sort cmp xs)"
    by (rule array_sort_stable_sort_of [OF assms(1)])
  show ?thesis
  proof (rule sorted_stable_unique [OF assms(1)])
    show "set ys \<subseteq> set xs" using s by simp
    show "set (array_sort cmp xs) \<subseteq> set xs" by (simp add: set_array_sort)
    show "sorted_wrt (\<lambda>a b. cmp a b \<le> 0) ys" using assms(2) by (simp add: stable_sort_of_def)
    show "sorted_wrt (\<lambda>a b. cmp a b \<le> 0) (array_sort cmp xs)"
      using a by (simp add: stable_sort_of_def)
    show "\<forall>w\<in>set xs. filter (\<lambda>v. cmp w v = 0) ys = filter (\<lambda>v. cmp w v = 0) (array_sort cmp xs)"
      using a assms(2) by (simp add: stable_sort_of_def)
  qed
qed

section \<open>The comparator of the table\<close>

lemma consistent_on_image:
  assumes "consistent_on S cmp" "f ` R \<subseteq> S"
  shows "consistent_on R (\<lambda>a b. cmp (f a) (f b))"
  using assms unfolding consistent_on_def
  by (smt (verit) image_subset_iff)

lemma compareValues_numeric_consistent:
  "consistent_on {v. nullish v \<or> ordinary_number v}
     (\<lambda>a b. sortCompare (compareValues eng d a b))"
proof -
  have sign: "(sortCompare (compareValues eng d a b) < 0
               \<longleftrightarrow> sortCompare (compareValues eng d b a) > 0)"
    if "nullish a \<or> ordinary_number a" "nullish b \<or> ordinary_number b" for a b
    using that by (cases a; cases b; cases d) (auto simp: compareValues_def)
  have trans: "sortCompare (compareValues eng d a c) \<le> 0"
    if "nullish a \<or> ordinary_number a" "nullish b \<or> ordinary_number b"
      "nullish c \<or> ordinary_number c"
      "sortCompare (compareValues eng d a b) \<le> 0"
      "sortCompare (compareValues eng d b c) \<le> 0" for a b c
    using that by (cases a; cases b; cases c; cases d) (auto simp: compareValues_def)
  show ?thesis unfolding consistent_on_def using sign trans by blast
qed

lemma compareValues_text:
  assumes "\<not> is_number u" "\<not> is_number v" "\<not> nullish u" "\<not> nullish v"
  shows "sortCompare (compareValues eng d u v) =
        (if d = Asc then localeCompare eng (String_js eng u) (String_js eng v)
         else localeCompare eng (String_js eng v) (String_js eng u))"
  using assms by (simp add: compareValues_def)

lemma compareValues_text_consistent:
  assumes "consistent_on UNIV (localeCompare eng)"
  shows "consistent_on {v. \<not> is_number v} (\<lambda>a b. sortCompare (compareValues eng d a b))"
proof -
  have lsign: "localeCompare eng s t < 0 \<longleftrightarrow> localeCompare eng t s > 0" for s t
    using assms unfolding consistent_on_def by simp
  have ltrans: "localeCompare eng s u \<le> 0"
    if "localeCompare eng s t \<le> 0" "localeCompare eng t u \<le> 0" for s t u
    using assms that unfolding consistent_on_def by blast
  have sign: "(sortCompare (compareValues eng d a b) < 0
               \<longleftrightarrow> sortCompare (compareValues eng d b a) > 0)"
    if "\<not> is_number a" "\<not> is_number b" for a b
  proof (cases "nullish a \<or> nullish b")
    case True
    then show ?thesis
      using that by (cases a; cases b; cases d) (auto simp: compareValues_def)
  next
    case False
    then show ?thesis
      using that lsign by (cases d) (simp_all add: compareValues_text)
  qed
  have trans: "sortCompare (compareValues eng d a c) \<le> 0"
    if "\<not> is_number a" "\<not> is_number b" "\<not> is_number c"
      "sortCompare (compareValues eng d a b) \<le> 0"
      "sortCompare (compareValues eng d b c) \<le> 0" for a b c
  proof (cases "nullish a \<or> nullish b \<or> nullish c")
    case True
    then show ?thesis
      using that by (cases a; cases b; cases c; cases d) (auto simp: compareValues_def)
  next
    case False
    then show ?thesis
      using that ltrans by (cases d) (auto simp: compareValues_text)
  qed
  show ?thesis unfolding consistent_on_def using sign trans by blast
qed

lemma rowOrder_consistent:
  assumes "numeric_column (key cfg) rows \<or>
           (text_column (key cfg) rows \<and> consistent_on UNIV (localeCompare eng))"
  shows "consistent_on (set rows) (rowOrder eng cfg)"
proof -
  have "consistent_on (set rows)
          (\<lambda>a b. sortCompare
             (compareValues eng (direction cfg) (field a (key cfg)) (field b (key cfg))))"
    using assms
  proof
    assume "numeric_column (key cfg) rows"
    then have "(\<lambda>r. field r (key cfg)) ` set rows \<subseteq> {v. nullish v \<or> ordinary_number v}"
      by (auto simp: numeric_column_def)
    then show ?thesis
      by (rule consistent_on_image [OF compareValues_numeric_consistent])
  next
    assume a: "text_column (key cfg) rows \<and> consistent_on UNIV (localeCompare eng)"
    then have "(\<lambda>r. field r (key cfg)) ` set rows \<subseteq> {v. \<not> is_number v}"
      by (auto simp: text_column_def)
    then show ?thesis
      using consistent_on_image [OF compareValues_text_consistent] a by blast
  qed
  then show ?thesis by (simp add: rowOrder_def [abs_def] compareRows_def)
qed

section \<open>The code-unit comparator\<close>

lemma codeUnitCompare_sign: "codeUnitCompare s t < 0 \<longleftrightarrow> codeUnitCompare t s > 0"
  by (induction s t rule: codeUnitCompare.induct) auto

lemma codeUnitCompare_trans:
  "codeUnitCompare s t \<le> 0 \<Longrightarrow> codeUnitCompare t u \<le> 0 \<Longrightarrow> codeUnitCompare s u \<le> 0"
proof (induction s t arbitrary: u rule: codeUnitCompare.induct)
  case 1
  then show ?case by simp
next
  case (2 d ds)
  then show ?case by (cases u) auto
next
  case (3 c cs)
  then show ?case by simp
next
  case (4 c cs d ds)
  show ?case
  proof (cases u)
    case Nil
    then show ?thesis using 4 by simp
  next
    case (Cons e es)
    have cd: "(of_char c :: nat) \<le> of_char d"
      using "4.prems"(1) by (simp split: if_splits)
    have de: "(of_char d :: nat) \<le> of_char e"
      using "4.prems"(2) Cons by (simp split: if_splits)
    show ?thesis
    proof (cases "(of_char c :: nat) < of_char e")
      case True
      then show ?thesis using Cons by simp
    next
      case False
      have n1: "\<not> (of_char c :: nat) < of_char d" "\<not> (of_char d :: nat) < of_char c"
        using False cd de by linarith+
      have n2: "\<not> (of_char d :: nat) < of_char e" "\<not> (of_char e :: nat) < of_char d"
        using False cd de by linarith+
      have n3: "\<not> (of_char e :: nat) < of_char c"
        using cd de by linarith
      have "codeUnitCompare cs ds \<le> 0"
        using "4.prems"(1) n1 by simp
      moreover have "codeUnitCompare ds es \<le> 0"
        using "4.prems"(2) Cons n2 by simp
      ultimately have "codeUnitCompare cs es \<le> 0"
        using "4.IH" n1 by simp
      then show ?thesis using Cons False n3 by simp
    qed
  qed
qed

lemma codeUnitCompare_consistent: "consistent_on UNIV codeUnitCompare"
  unfolding consistent_on_def using codeUnitCompare_sign codeUnitCompare_trans by blast

declare decimal.simps [simp del]

section \<open>Selection and notifications\<close>






lemma toggleRow_single_size:
  assumes "selectMode p = Single" "selectedRowKeys p = None"
    "length (internalSelectedKeys st) \<le> 1"
  shows "length (internalSelectedKeys (fst (toggleRow p st r))) \<le> 1"
  using assms by (simp add: toggleRow_def updateSelection_def Let_def)

section \<open>The input's value\<close>

lemma controlled_handlers_keep_internalValue:
  assumes "isControlled p"
  shows "internalValue (fst (handleChange p st v)) = internalValue st"
    and "internalValue (fst (handleClear p st)) = internalValue st"
    and "internalValue (fst (handleKeyDown p st k)) = internalValue st"
    and "internalValue (togglePassword st) = internalValue st"
  using assms
  by (simp_all add: handleChange_def handleClear_def handleKeyDown_def togglePassword_def)

lemma syncEffect_controlled:
  "valueProp p = Some x \<Longrightarrow> internalValue (syncEffect p st) = x"
  by (simp add: syncEffect_def isControlled_def orElse_def)

lemma dispatch_keeps_value:
  assumes "valueProp p = Some x" "internalValue st = x"
    and "\<forall>p'. ev = Rerender p' \<longrightarrow> valueProp p' = Some x"
  shows "valueProp (fst (dispatch (p, st) ev)) = Some x
       \<and> internalValue (snd (dispatch (p, st) ev)) = x"
  using assms
  by (cases ev)
     (auto simp: handleChange_def handleClear_def handleKeyDown_def togglePassword_def
        syncEffect_def isControlled_def orElse_def)

lemma foldl_dispatch_keeps_value:
  assumes "\<forall>p'. Rerender p' \<in> set evs \<longrightarrow> valueProp p' = Some x"
    and "valueProp (fst s) = Some x" "internalValue (snd s) = x"
  shows "internalValue (snd (foldl dispatch s evs)) = x"
  using assms
proof (induction evs arbitrary: s)
  case Nil
  then show ?case by simp
next
  case (Cons ev evs)
  obtain p st where s: "s = (p, st)" by (cases s)
  have "valueProp (fst (dispatch s ev)) = Some x \<and> internalValue (snd (dispatch s ev)) = x"
    using dispatch_keeps_value [of p x st ev] Cons.prems s by auto
  then show ?case using Cons.IH [of "dispatch s ev"] Cons.prems(1) by simp
qed

lemma controlled_value_stays:
  assumes "valueProp p = Some x" "defaultValue p = None"
    and "\<forall>p'. Rerender p' \<in> set evs \<longrightarrow> valueProp p' = Some x"
  shows "shownValue p evs = x"
  unfolding shownValue_def lifetime_def
  using foldl_dispatch_keeps_value [OF assms(3), of "(p, initial_input p)"] assms(1,2)
  by (simp add: InputField_def initial_input_def orElse_def)

section \<open>Sorting the rows\<close>

lemma compareValues_nullish_both:
  "nullish a \<Longrightarrow> nullish b \<Longrightarrow> compareValues eng d a b = Value 0"
  by (simp add: compareValues_def)

lemma compareValues_nullish_one:
  assumes "nullish a" "\<not> nullish b"
  shows "sortCompare (compareValues eng Asc a b) < 0 \<and> sortCompare (compareValues eng Asc b a) > 0
       \<and> sortCompare (compareValues eng Desc a b) > 0 \<and> sortCompare (compareValues eng Desc b a) < 0"
  using assms by (simp add: compareValues_def)

lemma compareValues_numbers:
  "(sortCompare (compareValues eng Asc (Num x) (Num y)) < 0 \<longleftrightarrow> x < y)
 \<and> (sortCompare (compareValues eng Asc (Num x) (Num y)) = 0 \<longleftrightarrow> x = y)
 \<and> (sortCompare (compareValues eng Desc (Num x) (Num y)) < 0 \<longleftrightarrow> y < x)
 \<and> (sortCompare (compareValues eng Desc (Num x) (Num y)) = 0 \<longleftrightarrow> x = y)"
  by (auto simp: compareValues_def)

lemma compareValues_other:
  assumes "\<not> nullish a" "\<not> nullish b" "\<not> (is_number a \<and> is_number b)"
  shows "compareValues eng Asc a b = Value (localeCompare eng (String_js eng a) (String_js eng b))
       \<and> compareValues eng Desc a b = Value (localeCompare eng (String_js eng b) (String_js eng a))"
  using assms by (auto simp: compareValues_def)

lemma displayedRows_DataTable:
  "\<not> loading p \<Longrightarrow> displayedRows (DataTable eng p st) = sortedData eng p st"
  by (cases "data p") (auto simp: DataTable_def sortedData_def comp_def split: option.splits)

lemma displayedRows_stable_sort_of:
  assumes "\<not> loading p" "sortConfig st = Some cfg"
    and "numeric_column (key cfg) (data p) \<or>
         (text_column (key cfg) (data p) \<and> consistent_on UNIV (localeCompare eng))"
  shows "stable_sort_of (rowOrder eng cfg) (data p) (displayedRows (DataTable eng p st))
       \<and> (\<forall>ys. stable_sort_of (rowOrder eng cfg) (data p) ys
               \<longrightarrow> ys = displayedRows (DataTable eng p st))"
  using assms(2) rowOrder_consistent [OF assms(3)]
  by (simp add: displayedRows_DataTable [OF assms(1)] sortedData_def
      array_sort_stable_sort_of stable_sort_of_unique)

lemma example_asc:
  assumes "\<not> loading p"
    "map (\<lambda>r. field r ''age'') (data p) = [Null, Num 3, Num 1, Null, Num 2]"
    "sortConfig st = Some \<lparr>key = ''age'', direction = Asc\<rparr>"
  shows "displayedRows (DataTable eng p st)
           = [data p ! 0, data p ! 3, data p ! 2, data p ! 4, data p ! 1]"
proof -
  obtain r0 r1 r2 r3 r4 where rows: "data p = [r0, r1, r2, r3, r4]"
    using assms(2) by (auto simp: map_eq_Cons_conv)
  then show ?thesis using assms
    by (simp add: displayedRows_DataTable sortedData_def rowOrder_def compareRows_def
        compareValues_def)
qed

lemma example_desc:
  assumes "\<not> loading p"
    "map (\<lambda>r. field r ''age'') (data p) = [Null, Num 3, Num 1, Null, Num 2]"
    "sortConfig st = Some \<lparr>key = ''age'', direction = Desc\<rparr>"
  shows "displayedRows (DataTable eng p st)
           = [data p ! 1, data p ! 4, data p ! 2, data p ! 0, data p ! 3]"
proof -
  obtain r0 r1 r2 r3 r4 where rows: "data p = [r0, r1, r2, r3, r4]"
    using assms(2) by (auto simp: map_eq_Cons_conv)
  then show ?thesis using assms
    by (simp add: displayedRows_DataTable sortedData_def rowOrder_def compareRows_def
        compareValues_def)
qed

lemma decimal_values: "decimal 2 = ''2''" "decimal 10 = ''10''"
  by (simp_all add: decimal.simps [of 2] decimal.simps [of 10] decimal.simps [of "Suc 0"])

lemma mixed_values:
  "rowOrder example_engine \<lparr>key = ''v'', direction = Asc\<rparr> mixed1 mixed3 = - 8"
  "rowOrder example_engine \<lparr>key = ''v'', direction = Asc\<rparr> mixed3 mixed1 = 8"
  "rowOrder example_engine \<lparr>key = ''v'', direction = Asc\<rparr> mixed3 mixed2 = - 1"
  "rowOrder example_engine \<lparr>key = ''v'', direction = Asc\<rparr> mixed2 mixed3 = 1"
  "rowOrder example_engine \<lparr>key = ''v'', direction = Asc\<rparr> mixed2 mixed1 = - 1"
  "rowOrder example_engine \<lparr>key = ''v'', direction = Asc\<rparr> mixed1 mixed2 = 1"
  by (simp_all add: rowOrder_def compareRows_def compareValues_def field_def
      mixed1_def mixed2_def mixed3_def example_engine_def decimal_values)

lemma nan_values:
  "rowOrder example_engine \<lparr>key = ''v'', direction = Asc\<rparr> mixed1 nan2 = 0"
  "rowOrder example_engine \<lparr>key = ''v'', direction = Asc\<rparr> nan2 mixed1 = 0"
  "rowOrder example_engine \<lparr>key = ''v'', direction = Asc\<rparr> nan2 nan3 = 0"
  "rowOrder example_engine \<lparr>key = ''v'', direction = Asc\<rparr> nan3 nan2 = 0"
  "rowOrder example_engine \<lparr>key = ''v'', direction = Asc\<rparr> mixed1 nan3 = 1"
  "rowOrder example_engine \<lparr>key = ''v'', direction = Asc\<rparr> nan3 mixed1 = - 1"
  "rowOrder example_engine \<lparr>key = ''v'', direction = Asc\<rparr> mixed1 mixed1 = 0"
  "rowOrder example_engine \<lparr>key = ''v'', direction = Asc\<rparr> nan2 nan2 = 0"
  "rowOrder example_engine \<lparr>key = ''v'', direction = Asc\<rparr> nan3 nan3 = 0"
  by (simp_all add: rowOrder_def compareRows_def compareValues_def field_def
      mixed1_def nan2_def nan3_def)

lemma nan_rows_distinct:
  "mixed1 \<noteq> nan2" "mixed1 \<noteq> nan3" "nan2 \<noteq> nan3"
  "nan2 \<noteq> mixed1" "nan3 \<noteq> mixed1" "nan3 \<noteq> nan2"
  by (simp_all add: mixed1_def nan2_def nan3_def)

section \<open>The claims\<close>



text \<open>
  C2, as amended. The comparator of \<^verbatim>\<open>sortedData\<close>: two \<^verbatim>\<open>null\<close>/\<^verbatim>\<open>undefined\<close> values
  compare equal; such a value is smaller than any other value when ascending and
  greater when descending; two numbers other than \<^verbatim>\<open>NaN\<close> compare by their values;
  every pair of other values that are not both numbers compares by \<^verbatim>\<open>localeCompare\<close>
  of the two values' strings. For every data array whose sort column has one field
  type (numbers other than \<^verbatim>\<open>NaN\<close>, with \<^verbatim>\<open>null\<close>/\<^verbatim>\<open>undefined\<close>; or no numbers at all, on
  an engine whose \<^verbatim>\<open>localeCompare\<close> is a consistent comparator) and every active sort
  state, the rows the table displays are the stable sort of the data under this
  comparator, and no other order is. For rows whose \<open>age\<close> is \<open>null, 3, 1, null, 2\<close>,
  ascending displays the rows 0, 3, 2, 4, 1 (both nulls first, in their original
  order, then 1, 2, 3) and descending displays the rows 1, 4, 2, 0, 3 (3, 2, 1, then
  both nulls).
\<close>

theorem displayed_rows_stable_sort:
  "(nullish a \<and> nullish b \<longrightarrow> compareValues eng d a b = Value 0)
 \<and> (nullish a \<and> \<not> nullish b \<longrightarrow>
      sortCompare (compareValues eng Asc a b) < 0 \<and> sortCompare (compareValues eng Asc b a) > 0 \<and>
      sortCompare (compareValues eng Desc a b) > 0 \<and> sortCompare (compareValues eng Desc b a) < 0)
 \<and> ((sortCompare (compareValues eng Asc (Num x) (Num y)) < 0 \<longleftrightarrow> x < y) \<and>
     (sortCompare (compareValues eng Asc (Num x) (Num y)) = 0 \<longleftrightarrow> x = y) \<and>
     (sortCompare (compareValues eng Desc (Num x) (Num y)) < 0 \<longleftrightarrow> y < x) \<and>
     (sortCompare (compareValues eng Desc (Num x) (Num y)) = 0 \<longleftrightarrow> x = y))
 \<and> (\<not> nullish a \<and> \<not> nullish b \<and> \<not> (is_number a \<and> is_number b) \<longrightarrow>
      compareValues eng Asc a b = Value (localeCompare eng (String_js eng a) (String_js eng b)) \<and>
      compareValues eng Desc a b = Value (localeCompare eng (String_js eng b) (String_js eng a)))
 \<and> (\<not> loading p \<and> sortConfig st = Some cfg \<and>
      (numeric_column (key cfg) (data p) \<or>
       text_column (key cfg) (data p) \<and> consistent_on UNIV (localeCompare eng)) \<longrightarrow>
      stable_sort_of (rowOrder eng cfg) (data p) (displayedRows (DataTable eng p st)) \<and>
      (\<forall>ys. stable_sort_of (rowOrder eng cfg) (data p) ys
            \<longrightarrow> ys = displayedRows (DataTable eng p st)))
 \<and> (\<not> loading p \<and>
      map (\<lambda>r. field r ''age'') (data p) = [Null, Num 3, Num 1, Null, Num 2] \<longrightarrow>
      (sortConfig st = Some \<lparr>key = ''age'', direction = Asc\<rparr> \<longrightarrow>
         displayedRows (DataTable eng p st)
           = [data p ! 0, data p ! 3, data p ! 2, data p ! 4, data p ! 1]) \<and>
      (sortConfig st = Some \<lparr>key = ''age'', direction = Desc\<rparr> \<longrightarrow>
         displayedRows (DataTable eng p st)
           = [data p ! 1, data p ! 4, data p ! 2, data p ! 0, data p ! 3]))"
proof -
  have c1: "nullish a \<and> nullish b \<longrightarrow> compareValues eng d a b = Value 0"
    using compareValues_nullish_both [of a b eng d] by simp
  have c2: "nullish a \<and> \<not> nullish b \<longrightarrow>
      sortCompare (compareValues eng Asc a b) < 0 \<and> sortCompare (compareValues eng Asc b a) > 0 \<and>
      sortCompare (compareValues eng Desc a b) > 0 \<and> sortCompare (compareValues eng Desc b a) < 0"
    using compareValues_nullish_one [of a b eng] by simp
  have c4: "\<not> nullish a \<and> \<not> nullish b \<and> \<not> (is_number a \<and> is_number b) \<longrightarrow>
      compareValues eng Asc a b = Value (localeCompare eng (String_js eng a) (String_js eng b)) \<and>
      compareValues eng Desc a b = Value (localeCompare eng (String_js eng b) (String_js eng a))"
    using compareValues_other [of a b eng] by simp
  have c6: "\<not> loading p \<and> sortConfig st = Some cfg \<and>
      (numeric_column (key cfg) (data p) \<or>
       text_column (key cfg) (data p) \<and> consistent_on UNIV (localeCompare eng)) \<longrightarrow>
      stable_sort_of (rowOrder eng cfg) (data p) (displayedRows (DataTable eng p st)) \<and>
      (\<forall>ys. stable_sort_of (rowOrder eng cfg) (data p) ys
            \<longrightarrow> ys = displayedRows (DataTable eng p st))"
    using displayedRows_stable_sort_of [of p st cfg eng] by simp
  have c7: "\<not> loading p \<and>
      map (\<lambda>r. field r ''age'') (data p) = [Null, Num 3, Num 1, Null, Num 2] \<longrightarrow>
      (sortConfig st = Some \<lparr>key = ''age'', direction = Asc\<rparr> \<longrightarrow>
         displayedRows (DataTable eng p st)
           = [data p ! 0, data p ! 3, data p ! 2, data p ! 4, data p ! 1]) \<and>
      (sortConfig st = Some \<lparr>key = ''age'', direction = Desc\<rparr> \<longrightarrow>
         displayedRows (DataTable eng p st)
           = [data p ! 1, data p ! 4, data p ! 2, data p ! 0, data p ! 3])"
    using example_asc [of p st eng] example_desc [of p st eng] by simp
  show ?thesis
    by (rule conjI, rule c1, rule conjI, rule c2, rule conjI, rule compareValues_numbers,
        rule conjI, rule c4, rule conjI, rule c6, rule c7)
qed

theorem displayed_rows_stable_sort_witness:
  "nullish Null \<and> nullish Undefined \<and> \<not> nullish (Num 3)
 \<and> compareValues example_engine Asc Null Undefined = Value 0
 \<and> sortCompare (compareValues example_engine Asc Null (Num 3)) < 0
 \<and> sortCompare (compareValues example_engine Desc Null (Num 3)) > 0
 \<and> sortCompare (compareValues example_engine Asc (Num 1) (Num 3)) < 0
 \<and> compareValues example_engine Asc (Str ''Bob'') (Str ''Eve'')
       = Value (codeUnitCompare ''Bob'' ''Eve'')
 \<and> \<not> loading (example_table Multiple [row1, row2, row3, row4, row5])
 \<and> numeric_column ''age'' (data (example_table Multiple [row1, row2, row3, row4, row5]))
 \<and> text_column ''name'' (data (example_table Multiple [row1, row2, row3, row4, row5]))
 \<and> consistent_on UNIV (localeCompare example_engine)
 \<and> stable_sort_of (rowOrder example_engine \<lparr>key = ''name'', direction = Asc\<rparr>)
       [row1, row2, row3, row4, row5] [row4, row2, row5, row3, row1]
 \<and> displayedRows (DataTable example_engine (example_table Multiple [row1, row2, row3, row4, row5])
       (sorted_by ''name'' Asc)) = [row4, row2, row5, row3, row1]
 \<and> map (\<lambda>r. field r ''age'') (data (example_table Multiple [row1, row2, row3, row4, row5]))
       = [Null, Num 3, Num 1, Null, Num 2]
 \<and> displayedRows (DataTable example_engine (example_table Multiple [row1, row2, row3, row4, row5])
       (sorted_by ''age'' Asc)) = [row1, row4, row3, row5, row2]
 \<and> displayedRows (DataTable example_engine (example_table Multiple [row1, row2, row3, row4, row5])
       (sorted_by ''age'' Desc)) = [row2, row5, row3, row1, row4]
 \<and> stable_sort_of (rowOrder example_engine \<lparr>key = ''age'', direction = Desc\<rparr>)
       [row1, row2, row3, row4, row5] [row2, row5, row3, row1, row4]"
proof -
  let ?p = "example_table Multiple [row1, row2, row3, row4, row5]"
  have d: "data ?p = [row1, row2, row3, row4, row5]" by (simp add: example_table_def)
  have nl: "\<not> loading ?p" by (simp add: example_table_def)
  have ages: "map (\<lambda>r. field r ''age'') (data ?p) = [Null, Num 3, Num 1, Null, Num 2]"
    unfolding d by (simp add: field_def row1_def row2_def row3_def row4_def row5_def)
  have names: "map (\<lambda>r. field r ''name'') (data ?p)
                 = [Str ''Eve'', Str ''Bob'', Str ''Dan'', Str ''Al'', Str ''Bob'']"
    unfolding d by (simp add: field_def row1_def row2_def row3_def row4_def row5_def)
  have num: "numeric_column ''age'' (data ?p)"
    using ages unfolding numeric_column_def d by simp
  have tcol: "text_column ''name'' (data ?p)"
    using names unfolding text_column_def d by simp
  have lc: "consistent_on UNIV (localeCompare example_engine)"
    by (simp add: example_engine_def codeUnitCompare_consistent)
  have sa: "sortConfig (sorted_by ''age'' Asc) = Some \<lparr>key = ''age'', direction = Asc\<rparr>"
    and sd: "sortConfig (sorted_by ''age'' Desc) = Some \<lparr>key = ''age'', direction = Desc\<rparr>"
    and sn: "sortConfig (sorted_by ''name'' Asc) = Some \<lparr>key = ''name'', direction = Asc\<rparr>"
    by (simp_all add: sorted_by_def)
  note t1 = displayed_rows_stable_sort
    [where a = Null and b = Undefined and eng = example_engine and d = Asc and x = 1 and y = 3
       and p = ?p and st = "sorted_by ''age'' Asc" and cfg = "\<lparr>key = ''age'', direction = Asc\<rparr>"]
  note t2 = displayed_rows_stable_sort
    [where a = Null and b = "Num 3" and eng = example_engine and d = Asc and x = 1 and y = 3
       and p = ?p and st = "sorted_by ''age'' Desc" and cfg = "\<lparr>key = ''age'', direction = Desc\<rparr>"]
  note t3 = displayed_rows_stable_sort
    [where a = "Str ''Bob''" and b = "Str ''Eve''" and eng = example_engine and d = Asc
       and x = 1 and y = 3
       and p = ?p and st = "sorted_by ''name'' Asc" and cfg = "\<lparr>key = ''name'', direction = Asc\<rparr>"]
  have c1: "compareValues example_engine Asc Null Undefined = Value 0"
    using t1 [THEN conjunct1] by simp
  have c2: "sortCompare (compareValues example_engine Asc Null (Num 3)) < 0
          \<and> sortCompare (compareValues example_engine Desc Null (Num 3)) > 0"
    using t2 [THEN conjunct2, THEN conjunct1] by simp
  have c3: "sortCompare (compareValues example_engine Asc (Num 1) (Num 3)) < 0"
    using t1 [THEN conjunct2, THEN conjunct2, THEN conjunct1] by simp
  have c4: "compareValues example_engine Asc (Str ''Bob'') (Str ''Eve'')
              = Value (codeUnitCompare ''Bob'' ''Eve'')"
    using t3 [THEN conjunct2, THEN conjunct2, THEN conjunct2, THEN conjunct1]
    by (simp add: example_engine_def)
  note ex1 = t1 [THEN conjunct2, THEN conjunct2, THEN conjunct2, THEN conjunct2, THEN conjunct2]
  note ex2 = t2 [THEN conjunct2, THEN conjunct2, THEN conjunct2, THEN conjunct2, THEN conjunct2]
  note st2 = t2 [THEN conjunct2, THEN conjunct2, THEN conjunct2, THEN conjunct2, THEN conjunct1]
  note st3 = t3 [THEN conjunct2, THEN conjunct2, THEN conjunct2, THEN conjunct2, THEN conjunct1]
  have "displayedRows (DataTable example_engine ?p (sorted_by ''age'' Asc))
          = [data ?p ! 0, data ?p ! 3, data ?p ! 2, data ?p ! 4, data ?p ! 1]"
    using ex1 nl ages sa by blast
  then have asc: "displayedRows (DataTable example_engine ?p (sorted_by ''age'' Asc))
          = [row1, row4, row3, row5, row2]"
    unfolding d by simp
  have "displayedRows (DataTable example_engine ?p (sorted_by ''age'' Desc))
          = [data ?p ! 1, data ?p ! 4, data ?p ! 2, data ?p ! 0, data ?p ! 3]"
    using ex2 nl ages sd by blast
  then have desc: "displayedRows (DataTable example_engine ?p (sorted_by ''age'' Desc))
          = [row2, row5, row3, row1, row4]"
    unfolding d by simp
  have "stable_sort_of (rowOrder example_engine \<lparr>key = ''age'', direction = Desc\<rparr>)
          (data ?p) (displayedRows (DataTable example_engine ?p (sorted_by ''age'' Desc)))"
    using st2 nl sd num by simp
  then have sdesc: "stable_sort_of (rowOrder example_engine \<lparr>key = ''age'', direction = Desc\<rparr>)
          [row1, row2, row3, row4, row5] [row2, row5, row3, row1, row4]"
    by (simp only: d desc)
  have "sortedData example_engine ?p (sorted_by ''name'' Asc) = [row4, row2, row5, row3, row1]"
    unfolding sortedData_def sn d
    by (simp add: rowOrder_def compareRows_def compareValues_def field_def
        row1_def row2_def row3_def row4_def row5_def example_engine_def)
  then have nm: "displayedRows (DataTable example_engine ?p (sorted_by ''name'' Asc))
          = [row4, row2, row5, row3, row1]"
    by (simp add: displayedRows_DataTable [OF nl])
  have "stable_sort_of (rowOrder example_engine \<lparr>key = ''name'', direction = Asc\<rparr>)
          (data ?p) (displayedRows (DataTable example_engine ?p (sorted_by ''name'' Asc)))"
    using st3 nl sn tcol lc by simp
  then have sname: "stable_sort_of (rowOrder example_engine \<lparr>key = ''name'', direction = Asc\<rparr>)
          [row1, row2, row3, row4, row5] [row4, row2, row5, row3, row1]"
    by (simp only: d nm)
  show ?thesis
    using c1 c2 c3 c4 nl num tcol lc sname nm ages asc desc sdesc by simp
qed

text \<open>
  C2 as it was stated speaks of every data array. On the column \<open>2, '1a', 10\<close> the
  comparator runs in a circle (2 before 10 as numbers, 10 before \<open>1a\<close> and \<open>1a\<close> before
  2 as strings), and on the column \<open>2, NaN, 1\<close> it takes \<^verbatim>\<open>NaN\<close> for equal to both 2 and
  1 and 2 for greater than 1: in both cases none of the six orders of the three rows is
  a stable sort of the data under the comparator, whatever the table displays.
\<close>

theorem untyped_column_has_no_stable_sort:
  "rowOrder example_engine \<lparr>key = ''v'', direction = Asc\<rparr> mixed1 mixed3 < 0
 \<and> rowOrder example_engine \<lparr>key = ''v'', direction = Asc\<rparr> mixed3 mixed2 < 0
 \<and> rowOrder example_engine \<lparr>key = ''v'', direction = Asc\<rparr> mixed2 mixed1 < 0
 \<and> \<not> stable_sort_of (rowOrder example_engine \<lparr>key = ''v'', direction = Asc\<rparr>)
       [mixed1, mixed2, mixed3] [mixed1, mixed2, mixed3]
 \<and> \<not> stable_sort_of (rowOrder example_engine \<lparr>key = ''v'', direction = Asc\<rparr>)
       [mixed1, mixed2, mixed3] [mixed1, mixed3, mixed2]
 \<and> \<not> stable_sort_of (rowOrder example_engine \<lparr>key = ''v'', direction = Asc\<rparr>)
       [mixed1, mixed2, mixed3] [mixed2, mixed1, mixed3]
 \<and> \<not> stable_sort_of (rowOrder example_engine \<lparr>key = ''v'', direction = Asc\<rparr>)
       [mixed1, mixed2, mixed3] [mixed2, mixed3, mixed1]
 \<and> \<not> stable_sort_of (rowOrder example_engine \<lparr>key = ''v'', direction = Asc\<rparr>)
       [mixed1, mixed2, mixed3] [mixed3, mixed1, mixed2]
 \<and> \<not> stable_sort_of (rowOrder example_engine \<lparr>key = ''v'', direction = Asc\<rparr>)
       [mixed1, mixed2, mixed3] [mixed3, mixed2, mixed1]
 \<and> rowOrder example_engine \<lparr>key = ''v'', direction = Asc\<rparr> mixed1 nan2 = 0
 \<and> rowOrder example_engine \<lparr>key = ''v'', direction = Asc\<rparr> nan2 nan3 = 0
 \<and> rowOrder example_engine \<lparr>key = ''v'', direction = Asc\<rparr> mixed1 nan3 > 0
 \<and> \<not> stable_sort_of (rowOrder example_engine \<lparr>key = ''v'', direction = Asc\<rparr>)
       [mixed1, nan2, nan3] [mixed1, nan2, nan3]
 \<and> \<not> stable_sort_of (rowOrder example_engine \<lparr>key = ''v'', direction = Asc\<rparr>)
       [mixed1, nan2, nan3] [mixed1, nan3, nan2]
 \<and> \<not> stable_sort_of (rowOrder example_engine \<lparr>key = ''v'', direction = Asc\<rparr>)
       [mixed1, nan2, nan3] [nan2, mixed1, nan3]
 \<and> \<not> stable_sort_of (rowOrder example_engine \<lparr>key = ''v'', direction = Asc\<rparr>)
       [mixed1, nan2, nan3] [nan2, nan3, mixed1]
 \<and> \<not> stable_sort_of (rowOrder example_engine \<lparr>key = ''v'', direction = Asc\<rparr>)
       [mixed1, nan2, nan3] [nan3, mixed1, nan2]
 \<and> \<not> stable_sort_of (rowOrder example_engine \<lparr>key = ''v'', direction = Asc\<rparr>)
       [mixed1, nan2, nan3] [nan3, nan2, mixed1]"
  by (simp add: stable_sort_of_def mixed_values nan_values nan_rows_distinct)




text \<open>
  C4. In single mode with uncontrolled selection, at most one key is selected after
  every selection operation. \<^verbatim>\<open>toggleRow\<close> keeps this (\<open>toggleRow_single_size\<close> above),
  but \<^verbatim>\<open>handleSelectAll\<close> does not look at \<^verbatim>\<open>selectMode\<close>: a single-mode table with
  two rows renders the header checkbox, and checking it selects both keys.
\<close>

theorem select_all_in_single_mode:
  "DataTable example_engine (example_table Single [row1, row2]) initial_state
     = Populated \<lparr>selectAllChecked = Some False, headerSort = [],
                   body = [(row1, False), (row2, False)]\<rparr>
 \<and> selectMode (example_table Single [row1, row2]) = Single
 \<and> selectedKeys (example_table Single [row1, row2])
       (fst (handle (example_table Single [row1, row2]) initial_state (SelectAll True)))
     = [Num 1, Num 2]"
  by (simp add: example_table_def initial_state_def handleSelectAll_def
      updateSelection_def selectedKeys_def rowKeyOf_def field_def Let_def
      DataTable_def allSelected_def sortedData_def includes_js_def row1_def row2_def)

text \<open>
  C5. The header checkbox is checked exactly when the data is not empty and the key
  of every row of the data is selected. \<^verbatim>\<open>allSelected\<close> compares the number of
  selected keys with the number of rows instead. After rows 1 and 3 of three are
  selected and the data shrinks to rows 1 and 2, the checkbox is checked although
  row 2 is not selected; after both of two rows are selected and the data shrinks to
  row 1, it is not checked although every row of the data is selected.
\<close>

theorem allSelected_compares_lengths:
  "allSelected (example_table Multiple [row1, row2])
     (fst (interact (example_table Multiple [row1, row2, row3]) initial_state
             [RowClick row1, RowClick row3]))
 \<and> rowKeyOf (example_table Multiple [row1, row2]) row2 \<notin>
     set (selectedKeys (example_table Multiple [row1, row2])
       (fst (interact (example_table Multiple [row1, row2, row3]) initial_state
             [RowClick row1, RowClick row3])))
 \<and> \<not> allSelected (example_table Multiple [row1])
     (fst (handle (example_table Multiple [row1, row2]) initial_state (SelectAll True)))
 \<and> rowKeyOf (example_table Multiple [row1]) row1 \<in>
     set (selectedKeys (example_table Multiple [row1])
       (fst (handle (example_table Multiple [row1, row2]) initial_state (SelectAll True))))"
  by (simp add: example_table_def row1_def row2_def row3_def initial_state_def
      handleSelectAll_def toggleRow_def allSelected_def includes_js_def
      updateSelection_def selectedKeys_def rowKeyOf_def field_def Let_def)

text \<open>
  C6. \<^verbatim>\<open>DataTable\<close> renders exactly one of three things: the loading placeholder
  exactly when \<^verbatim>\<open>loading\<close> is true, whatever the data; the empty placeholder exactly
  when \<^verbatim>\<open>loading\<close> is false and the data has no rows; the populated table exactly
  when \<^verbatim>\<open>loading\<close> is false and the data has a row.
\<close>

theorem DataTable_render_modes:
  "(DataTable eng p st = LoadingPlaceholder \<longleftrightarrow> loading p)
 \<and> (DataTable eng p st = EmptyPlaceholder \<longleftrightarrow> \<not> loading p \<and> data p = [])
 \<and> ((\<exists>tv. DataTable eng p st = Populated tv) \<longleftrightarrow> \<not> loading p \<and> data p \<noteq> [])"
  by (auto simp: DataTable_def)

theorem DataTable_render_modes_witness:
  "DataTable example_engine ((example_table Multiple [row1])\<lparr>loading := True\<rparr>) initial_state
     = LoadingPlaceholder
 \<and> DataTable example_engine (example_table Multiple []) initial_state = EmptyPlaceholder
 \<and> (\<exists>tv. DataTable example_engine (example_table Multiple [row1]) initial_state = Populated tv)"
  using DataTable_render_modes [of example_engine "(example_table Multiple [row1])\<lparr>loading := True\<rparr>" initial_state]
    DataTable_render_modes [of example_engine "example_table Multiple []" initial_state]
    DataTable_render_modes [of example_engine "example_table Multiple [row1]" initial_state]
  by (simp add: example_table_def)

text \<open>
  C7. A field that is given a \<^verbatim>\<open>value\<close> shows that value at every render. The input
  shows \<^verbatim>\<open>internalValue\<close>, which starts from \<^verbatim>\<open>defaultValue ?? value\<close> and follows \<^verbatim>\<open>value\<close>
  only when the effect has run. A field given value \<open>x\<close> and default value \<open>d\<close> shows
  \<open>d\<close> at its first render and \<open>x\<close> after the effect; a field showing \<open>x\<close> whose
  caller answers the keystroke \<open>xa\<close> by rendering it with value \<open>xa\<close> still shows \<open>x\<close>
  at that render and \<open>xa\<close> after the effect. The part of the claim about a caller that
  never changes the value holds when no default value is given
  (\<open>controlled_value_stays\<close> above).
\<close>

theorem controlled_input_first_render:
  "valueProp example_input_with_default = Some ''x''
 \<and> defaultValue example_input_with_default = Some ''d''
 \<and> shownValue example_input_with_default [] = ''d''
 \<and> shownValue example_input_with_default [Effects] = ''x''
 \<and> valueProp (fst (lifetime example_input
        [Effects, Typed ''xa'', Rerender (example_input\<lparr>valueProp := Some ''xa''\<rparr>)]))
     = Some ''xa''
 \<and> shownValue example_input
       [Effects, Typed ''xa'', Rerender (example_input\<lparr>valueProp := Some ''xa''\<rparr>)] = ''x''
 \<and> shownValue example_input
       [Effects, Typed ''xa'', Rerender (example_input\<lparr>valueProp := Some ''xa''\<rparr>), Effects]
     = ''xa''"
  by (simp add: example_input_with_default_def example_input_def shownValue_def lifetime_def
      initial_input_def syncEffect_def isControlled_def orElse_def InputField_def
      handleChange_def)

text \<open>
  C8. When \<^verbatim>\<open>invalid\<close> is true and no error message is supplied, the helper text is
  still shown. The paragraph is rendered when helper text or an error message is
  present, but its child is chosen by \<^verbatim>\<open>invalid\<close> alone: for an invalid field with
  helper text \<open>hint\<close> and no error message the paragraph is rendered with no text in
  it.
\<close>

theorem helper_text_hidden_when_invalid:
  "invalid example_input \<and> errorMessage example_input = None
 \<and> helperText example_input = Some ''hint''
 \<and> hintParagraph (InputField example_input (initial_input example_input)) = Some None
 \<and> hintText example_input = None"
  by (simp add: example_input_def hint_def hintText_def truthy_def InputField_def)

text \<open>
  C9. When the active sort key names a field that every row lacks (or holds as
  \<^verbatim>\<open>undefined\<close>), the displayed order is the order of the data.
\<close>

theorem sort_on_absent_key_keeps_order:
  assumes "sortConfig st = Some cfg"
    and "\<forall>r\<in>set (data p). field r (key cfg) = Undefined"
  shows "sortedData eng p st = data p"
proof -
  have "\<forall>a\<in>set (data p). \<forall>b\<in>set (data p). rowOrder eng cfg a b \<le> 0"
    using assms(2) by (simp add: rowOrder_def compareRows_def compareValues_def)
  then show ?thesis
    using assms(1) by (simp add: sortedData_def array_sort_all_equal)
qed

theorem sort_on_absent_key_keeps_order_witness:
  "sortConfig (sorted_by ''salary'' Desc) = Some \<lparr>key = ''salary'', direction = Desc\<rparr>
 \<and> map (\<lambda>r. field r ''salary'') (data (example_table Multiple [row2, row1, row3]))
     = [Undefined, Undefined, Undefined]
 \<and> sortedData example_engine (example_table Multiple [row2, row1, row3]) (sorted_by ''salary'' Desc)
     = [row2, row1, row3]"
proof -
  have h1: "sortConfig (sorted_by ''salary'' Desc) = Some \<lparr>key = ''salary'', direction = Desc\<rparr>"
    by (simp add: sorted_by_def)
  have h2: "\<forall>r\<in>set (data (example_table Multiple [row2, row1, row3])).
              field r (key \<lparr>key = ''salary'', direction = Desc\<rparr>) = Undefined"
    by (simp add: example_table_def field_def row1_def row2_def row3_def)
  have h3: "map (\<lambda>r. field r ''salary'') (data (example_table Multiple [row2, row1, row3]))
     = [Undefined, Undefined, Undefined]"
    by (simp add: example_table_def field_def row1_def row2_def row3_def)
  have "sortedData example_engine (example_table Multiple [row2, row1, row3])
          (sorted_by ''salary'' Desc) = data (example_table Multiple [row2, row1, row3])"
    by (rule sort_on_absent_key_keeps_order [OF h1 h2])
  then show ?thesis
    using h1 h3 by (simp add: example_table_def)
qed



end
